theory Spec2Isabelle
  imports Complex_Main
begin

section \<open>Data model\<close>

text \<open>
  Python strings are \<open>string\<close>; Python floats and PostgreSQL \<open>float8\<close> values are
  read as the real numbers they denote, and the literals \<open>0.1\<close>, \<open>0.5\<close>, \<open>0.9\<close> and
  \<open>1.0\<close> as the fractions they write; Discord ids are \<open>int\<close>.  An embedding is the list
  of floats the provider returns (\<open>List[float]\<close>), stored in the \<open>vector(1536)\<close> column
  of \<open>pinya_docs\<close>; the column is never null in a row the code wrote.
\<close>

type_synonym vec = "real list"

text \<open>The values the code puts into the \<open>metadata\<close> JSONB column.\<close>

datatype jval = JInt int | JBool bool

type_synonym jsonb = "string \<rightharpoonup> jval"

text \<open>
  A row of \<open>pinya_docs\<close> (core/database.py, \<open>init_schema\<close>): the columns \<open>id\<close>,
  \<open>topic\<close>, \<open>content\<close>, \<open>embedding\<close> and \<open>metadata\<close>.  The \<open>created_at\<close> column is
  read only by the topic autocompletion, which is not modelled.
\<close>

record doc =
  row_id :: int
  row_topic :: string
  row_content :: string
  row_embedding :: vec
  row_metadata :: jsonb

text \<open>
  A row returned by the query of \<open>search_knowledge_base\<close>:
  \<open>SELECT id, topic, content, metadata, 1 - (embedding <=> $1) as similarity\<close>.
\<close>

record search_hit =
  hit_id :: int
  hit_topic :: string
  hit_content :: string
  hit_metadata :: jsonb
  similarity :: real

text \<open>The exceptions the modelled code can meet.\<close>

datatype error =
    DbError          \<comment> \<open>an asyncpg call raised\<close>
  | EmbeddingError   \<comment> \<open>\<open>aembed_query\<close> raised\<close>
  | LLMError         \<comment> \<open>\<open>chain.ainvoke\<close> raised\<close>
  | ValueError       \<comment> \<open>\<open>int()\<close> or \<open>float()\<close> on a malformed string\<close>
  | TypeError        \<comment> \<open>\<open>float(None)\<close>\<close>
  | ReError          \<comment> \<open>\<open>re.sub\<close> raised \<open>re.error\<close>\<close>
  | HTTPException    \<comment> \<open>\<open>channel.send\<close> was refused\<close>
  | CheckFailure     \<comment> \<open>an \<open>app_commands.check\<close> predicate returned False\<close>

text \<open>The second component of what \<open>upsert_knowledge\<close> returns.\<close>

datatype upsert_message =
    DuplicateWarning   \<comment> \<open>"This content seems very similar to existing knowledge. ..."\<close>
  | SaveFailed error   \<comment> \<open>"An error occurred while saving: ..."\<close>

text \<open>
  What the code sends to the chat platform.  The texts carry decorations that are not
  reproduced; each constructor stands for one send of the source.
\<close>

datatype event =
    Typing                                  \<comment> \<open>\<open>message.channel.typing()\<close>\<close>
  | Defer                                   \<comment> \<open>\<open>interaction.response.defer\<close>\<close>
  | GapNotice int string int bool           \<comment> \<open>channel, query text, requester, teach button\<close>
  | AuditNotice int string string int       \<comment> \<open>channel, title, description, user\<close>
  | Reply string string "int option"        \<comment> \<open>answer, confidence text, document of the vote view\<close>
  | ValueMustBeInRange                      \<comment> \<open>"Value must be between 0.1 and 1.0"\<close>
  | ThresholdSet real                       \<comment> \<open>"AI Confidence Threshold set to ..."\<close>
  | TopicNotFound string                    \<comment> \<open>"Topic ... not found."\<close>
  | Forgot string                           \<comment> \<open>"Forgot everything about ..."\<close>
  | AliasSet string string                  \<comment> \<open>"Alias set: ... -> ..."\<close>
  | AliasError error                        \<comment> \<open>"Error setting alias: ..."\<close>
  | RoleNotConfigured string                \<comment> \<open>"The ... role has not been configured yet."\<close>
  | RoleIdInvalid string                    \<comment> \<open>"Configuration error: ... role ID is invalid."\<close>
  | RoleRequired int                        \<comment> \<open>"You need the ... role to use this command."\<close>

text \<open>The calls made to the embedding and language model providers.\<close>

datatype provider_call =
    EmbedCall string                        \<comment> \<open>\<open>aembed_query(text)\<close>\<close>
  | TranslateCall string                    \<comment> \<open>the translation chain, \<open>{"text": text}\<close>\<close>
  | AnswerCall string string string         \<comment> \<open>instruction mode, context, question\<close>

text \<open>
  The collaborators the code calls and does not define: the two providers (the fixed
  prompt texts are theirs), the \<open><=>\<close> operator of pgvector, the regular expression
  engine, Python's \<open>int\<close> and \<open>float\<close> on strings (\<open>None\<close> where they raise
  \<open>ValueError\<close>) and \<open>str\<close> on floats, and the gateway's caches.

  Two choices are the collaborators' as well.  \<open>ORDER BY similarity DESC\<close> names no
  second key, so the order of rows of equal similarity is the database's: \<open>tie_order\<close>
  is the rank it gives the rows for one query (query vector and threshold), and it may
  differ from one query to the next.  A send to a channel may be refused by the
  gateway: \<open>channel_send_refused\<close> says for which channels \<open>channel.send\<close> raises.
  Replies to the requester are taken to arrive.
\<close>

record env =
  embed_query :: "string \<Rightarrow> error + vec"
  cosine_distance :: "vec \<Rightarrow> vec \<Rightarrow> real"
  tie_order :: "vec \<Rightarrow> real \<Rightarrow> doc \<Rightarrow> int"
  translate_chain :: "string \<Rightarrow> error + string"
  answer_chain :: "string \<Rightarrow> string \<Rightarrow> string \<Rightarrow> error + string"
  re_sub_word :: "string \<Rightarrow> string \<Rightarrow> string \<Rightarrow> error + string"
  bold_coords :: "string \<Rightarrow> string"
  py_int :: "string \<Rightarrow> int option"
  py_float :: "string \<Rightarrow> real option"
  str_float :: "real \<Rightarrow> string"
  bot_user_id :: int
  get_channel :: "int \<Rightarrow> bool"
  channel_send_refused :: "int \<Rightarrow> bool"
  get_cog_Knowledge :: bool

text \<open>What the handlers read of a \<open>discord.Message\<close> and a \<open>discord.Interaction\<close>.\<close>

record message =
  author_bot :: bool
  author_id :: int
  author_roles :: "int list"
  mentions :: "int list"
  message_content :: string

record interaction =
  interaction_user :: int
  interaction_roles :: "int list"

text \<open>
  The three tables and the sequence behind \<open>id SERIAL\<close>.  \<open>config\<close> and \<open>aliases\<close> have
  a primary key; the rows of \<open>pinya_docs\<close> and \<open>aliases\<close> are kept in the order of
  insertion.
\<close>

record database =
  config :: "string \<rightharpoonup> string"
  pinya_docs :: "doc list"
  aliases :: "(string \<times> string) list"
  next_id :: int

text \<open>
  The state: the database, the outcome of the storage calls to come (\<open>True\<close>: the call
  raises; an exhausted list: no call raises), the class attribute
  \<open>ConfigManager._cache\<close>, and what has been sent and called so far, oldest first.
\<close>

record state =
  db :: database
  db_faults :: "bool list"
  cache :: "string \<rightharpoonup> string"
  outbox :: "event list"
  calls :: "provider_call list"

definition send :: "event \<Rightarrow> state \<Rightarrow> state" where
  "send ev st = st\<lparr>outbox := outbox st @ [ev]\<rparr>"

text \<open>\<open>channel.send\<close> to a channel of the gateway's cache: it raises when refused.\<close>

definition channel_send :: "env \<Rightarrow> int \<Rightarrow> event \<Rightarrow> state \<Rightarrow> (error + unit) \<times> state" where
  "channel_send e cid ev st =
     (if channel_send_refused e cid then (Inl HTTPException, st) else (Inr (), send ev st))"

section \<open>Python built-ins on strings\<close>

text \<open>
  \<open>str.replace\<close>, \<open>str.strip\<close>, \<open>str.split\<close>, \<open>str.lower\<close>, \<open>str.join\<close> and \<open>str\<close> on
  integers, on ASCII strings: \<open>strip\<close> removes the ASCII white space of
  \<open>str.isspace\<close>, \<open>lower\<close> maps \<open>A\<close> to \<open>Z\<close>.  \<open>replace\<close> takes the leftmost occurrences
  that do not overlap; with an empty pattern it puts the new text before every
  character and at the end, as Python does.
\<close>

function str_replace :: "string \<Rightarrow> string \<Rightarrow> string \<Rightarrow> string" where
  "str_replace old new [] = (if old = [] then new else [])"
| "str_replace old new (c # cs) =
     (if old = [] then new @ c # str_replace old new cs
      else if take (length old) (c # cs) = old
        then new @ str_replace old new (drop (length old) (c # cs))
      else c # str_replace old new cs)"
  by pat_completeness auto
termination
  by (relation "measure (\<lambda>(old, new, s). length s)") (auto simp: neq_Nil_conv)

definition is_space :: "char \<Rightarrow> bool" where
  "is_space c = (c \<in> set [CHR 0x20, CHR 0x09, CHR 0x0A, CHR 0x0B, CHR 0x0C, CHR 0x0D,
                            CHR 0x1C, CHR 0x1D, CHR 0x1E, CHR 0x1F])"

definition strip :: "string \<Rightarrow> string" where
  "strip s = rev (dropWhile is_space (rev (dropWhile is_space s)))"

fun split :: "char \<Rightarrow> string \<Rightarrow> string list" where
  "split sep [] = [[]]"
| "split sep (c # cs) =
     (if c = sep then [] # split sep cs
      else (case split sep cs of
              [] \<Rightarrow> [[c]]
            | w # ws \<Rightarrow> (c # w) # ws))"

definition lower_char :: "char \<Rightarrow> char" where
  "lower_char c =
     (case List.find (\<lambda>(u, l). u = c)
             (zip ''ABCDEFGHIJKLMNOPQRSTUVWXYZ'' ''abcdefghijklmnopqrstuvwxyz'') of
        None \<Rightarrow> c
      | Some (u, l) \<Rightarrow> l)"

definition lower :: "string \<Rightarrow> string" where
  "lower s = map lower_char s"

fun join :: "string \<Rightarrow> string list \<Rightarrow> string" where
  "join sep [] = []"
| "join sep [x] = x"
| "join sep (x # y # ys) = x @ sep @ join sep (y # ys)"

fun str_nat :: "nat \<Rightarrow> string" where
  "str_nat n =
     (if n < 10 then [''0123456789'' ! n]
      else str_nat (n div 10) @ [''0123456789'' ! (n mod 10)])"

declare str_nat.simps [simp del]

definition str_int :: "int \<Rightarrow> string" where
  "str_int i = (if i < 0 then CHR ''-'' # str_nat (nat (- i)) else str_nat (nat i))"

text \<open>Truth values of \<open>Optional[str]\<close> and \<open>Optional[int]\<close> in a condition.\<close>

definition truthy_str :: "string option \<Rightarrow> bool" where
  "truthy_str v = (case v of None \<Rightarrow> False | Some s \<Rightarrow> s \<noteq> [])"

definition truthy_int :: "int option \<Rightarrow> bool" where
  "truthy_int v = (case v of None \<Rightarrow> False | Some i \<Rightarrow> i \<noteq> 0)"

section \<open>core/database.py\<close>

text \<open>
  \<open>Database.fetch\<close>, \<open>fetchval\<close>, \<open>fetchrow\<close> and \<open>execute\<close> hand a statement to the pool.
  The statement is its meaning on the tables.  The call consumes the next outcome; when
  it raises, the tables are as before.
\<close>

definition Database_run ::
  "(database \<Rightarrow> (error + 'a) \<times> database) \<Rightarrow> state \<Rightarrow> (error + 'a) \<times> state" where
  "Database_run stmt st =
     (case db_faults st of
        [] \<Rightarrow> (case stmt (db st) of (r, d) \<Rightarrow> (r, st\<lparr>db := d\<rparr>))
      | f # fs \<Rightarrow>
          (if f then (Inl DbError, st\<lparr>db_faults := fs\<rparr>)
           else (case stmt (db st) of (r, d) \<Rightarrow> (r, st\<lparr>db := d, db_faults := fs\<rparr>))))"

text \<open>Whether the next storage call raises.\<close>

definition fails_next :: "state \<Rightarrow> bool" where
  "fails_next st = (case db_faults st of [] \<Rightarrow> False | f # fs \<Rightarrow> f)"

definition Database_fetch :: "(database \<Rightarrow> 'a) \<Rightarrow> state \<Rightarrow> (error + 'a) \<times> state" where
  "Database_fetch query st = Database_run (\<lambda>d. (Inr (query d), d)) st"


definition Database_execute :: "(database \<Rightarrow> database) \<Rightarrow> state \<Rightarrow> (error + unit) \<times> state" where
  "Database_execute stmt st = Database_run (\<lambda>d. (Inr (), stmt d)) st"

section \<open>core/config_manager.py\<close>

text \<open>\<open>INSERT INTO config (key, value) VALUES ($1, $2) ON CONFLICT (key) DO UPDATE SET value = $2\<close>\<close>

definition config_upsert :: "string \<Rightarrow> string \<Rightarrow> database \<Rightarrow> database" where
  "config_upsert key val d = d\<lparr>config := (config d)(key \<mapsto> val)\<rparr>"

text \<open>\<open>DELETE FROM config WHERE key = $1\<close>\<close>

definition config_delete :: "string \<Rightarrow> database \<Rightarrow> database" where
  "config_delete key d = d\<lparr>config := (config d)(key := None)\<rparr>"

definition load_cache :: "state \<Rightarrow> (error + unit) \<times> state" where
  "load_cache st =
     (case Database_fetch config st of
        (Inl err, s1) \<Rightarrow> (Inl err, s1)
      | (Inr rows, s1) \<Rightarrow> (Inr (), s1\<lparr>cache := rows\<rparr>))"

text \<open>\<open>get\<close> reads \<open>cls._cache.get(key, default)\<close>; it takes the cache and nothing else.\<close>

definition ConfigManager_get :: "string \<Rightarrow> string option \<Rightarrow> (string \<rightharpoonup> string) \<Rightarrow> string option" where
  "ConfigManager_get key dflt c = (case c key of None \<Rightarrow> dflt | Some v \<Rightarrow> Some v)"

text \<open>The callers pass strings, on which \<open>str(value)\<close> is the identity.\<close>

definition ConfigManager_set :: "string \<Rightarrow> string \<Rightarrow> state \<Rightarrow> (error + unit) \<times> state" where
  "ConfigManager_set key val st =
     (case Database_execute (config_upsert key val) st of
        (Inl err, s1) \<Rightarrow> (Inl err, s1)
      | (Inr u, s1) \<Rightarrow> (Inr (), s1\<lparr>cache := (cache s1)(key \<mapsto> val)\<rparr>))"

definition ConfigManager_delete :: "string \<Rightarrow> state \<Rightarrow> (error + unit) \<times> state" where
  "ConfigManager_delete key st =
     (case Database_execute (config_delete key) st of
        (Inl err, s1) \<Rightarrow> (Inl err, s1)
      | (Inr u, s1) \<Rightarrow> (Inr (), s1\<lparr>cache := (cache s1)(key := None)\<rparr>))"

text \<open>
  The predicate of the decorator \<open>is_configured_role\<close>: whether the command may run,
  and what it told the user when not.
\<close>

definition is_configured_role :: "env \<Rightarrow> string \<Rightarrow> interaction \<Rightarrow> state \<Rightarrow> bool \<times> state" where
  "is_configured_role e role_type interaction st =
     (let role_id_str = ConfigManager_get (''role_'' @ role_type) None (cache st) in
      if \<not> truthy_str role_id_str then (False, send (RoleNotConfigured role_type) st)
      else
        (case py_int e (the role_id_str) of
           None \<Rightarrow> (False, send (RoleIdInvalid role_type) st)
         | Some role_id \<Rightarrow>
             if role_id \<in> set (interaction_roles interaction) then (True, st)
             else (False, send (RoleRequired role_id) st)))"

section \<open>utils/ai.py\<close>

definition get_embedding :: "env \<Rightarrow> string \<Rightarrow> state \<Rightarrow> (error + vec) \<times> state" where
  "get_embedding e text st =
     (embed_query e text, st\<lparr>calls := calls st @ [EmbedCall text]\<rparr>)"

definition translate_to_english :: "env \<Rightarrow> string \<Rightarrow> state \<Rightarrow> (error + string) \<times> state" where
  "translate_to_english e text st =
     (translate_chain e text, st\<lparr>calls := calls st @ [TranslateCall text]\<rparr>)"

text \<open>
  The query of \<open>search_knowledge_base\<close> over the rows of the table:
  \<open>WHERE 1 - (embedding <=> $1) > $2 ORDER BY similarity DESC LIMIT 3\<close>.
  The rows that pass the filter are put in the database's order for this query
  (\<open>tie_order\<close>; rows it ranks equal stay in table order) and then sorted by descending
  similarity.  \<open>sort_key\<close> is stable, so rows of equal similarity come out in the
  database's order, whatever that is.
\<close>

definition similarity_to :: "env \<Rightarrow> vec \<Rightarrow> doc \<Rightarrow> real" where
  "similarity_to e query_vec d = 1 - cosine_distance e (row_embedding d) query_vec"

definition to_row :: "env \<Rightarrow> vec \<Rightarrow> doc \<Rightarrow> search_hit" where
  "to_row e query_vec d =
     \<lparr>hit_id = row_id d, hit_topic = row_topic d, hit_content = row_content d,
      hit_metadata = row_metadata d, similarity = similarity_to e query_vec d\<rparr>"

definition search_query :: "env \<Rightarrow> vec \<Rightarrow> real \<Rightarrow> doc list \<Rightarrow> search_hit list" where
  "search_query e query_vec threshold rows =
     map (to_row e query_vec)
       (take 3 (sort_key (\<lambda>d. - similarity_to e query_vec d)
          (sort_key (tie_order e query_vec threshold)
             (filter (\<lambda>d. similarity_to e query_vec d > threshold) rows))))"

definition search_knowledge_base ::
  "env \<Rightarrow> string \<Rightarrow> real \<Rightarrow> state \<Rightarrow> (error + search_hit list) \<times> state" where
  "search_knowledge_base e text threshold st =
     (case get_embedding e text st of
        (Inl err, s1) \<Rightarrow> (Inl err, s1)
      | (Inr query_vec, s1) \<Rightarrow>
          Database_fetch (\<lambda>d. search_query e query_vec threshold (pinya_docs d)) s1)"

definition generate_answer ::
  "env \<Rightarrow> string \<Rightarrow> search_hit list \<Rightarrow> state \<Rightarrow> (error + string) \<times> state" where
  "generate_answer e question context_chunks st =
     (let context_text =
            (if context_chunks \<noteq> []
             then join [CHR 0x0A, CHR 0x0A]
                    (map (\<lambda>c. ''Topic: '' @ hit_topic c @ [CHR 0x0A] @ ''Content: '' @ hit_content c)
                       context_chunks)
             else ''No database context available.'');
          instruction_mode =
            (if context_chunks \<noteq> [] then ''Use the provided context to answer.''
             else ''Use your general knowledge about Project Zomboid to answer.'')
      in (answer_chain e instruction_mode context_text question,
          st\<lparr>calls := calls st @ [AnswerCall instruction_mode context_text question]\<rparr>))"

definition check_duplicate :: "env \<Rightarrow> string \<Rightarrow> real \<Rightarrow> state \<Rightarrow> (error + bool) \<times> state" where
  "check_duplicate e text threshold st =
     (case search_knowledge_base e text threshold st of
        (Inl err, s1) \<Rightarrow> (Inl err, s1)
      | (Inr results, s1) \<Rightarrow> (Inr (length results > 0), s1))"

section \<open>cogs/knowledge.py\<close>

definition log_audit :: "env \<Rightarrow> string \<Rightarrow> string \<Rightarrow> int \<Rightarrow> state \<Rightarrow> (error + unit) \<times> state" where
  "log_audit e title description user st =
     (let channel_id = ConfigManager_get ''channel_audit_log'' None (cache st) in
      if \<not> truthy_str channel_id then (Inr (), st)
      else
        (case py_int e (the channel_id) of
           None \<Rightarrow> (Inl ValueError, st)
         | Some cid \<Rightarrow>
             if \<not> get_channel e cid then (Inr (), st)
             else channel_send e cid (AuditNotice cid title description user) st))"

text \<open>\<open>spoiler.lower() in ['yes', 'y', 'true']\<close>\<close>

definition is_spoiler :: "string \<Rightarrow> bool" where
  "is_spoiler spoiler = (lower spoiler \<in> set [''yes'', ''y'', ''true''])"

text \<open>
  \<open>UPDATE pinya_docs SET topic = $1, content = $2, embedding = $3,
  metadata = metadata || $4::jsonb WHERE id = $5\<close>
\<close>

definition update_doc :: "string \<Rightarrow> string \<Rightarrow> vec \<Rightarrow> jsonb \<Rightarrow> int \<Rightarrow> database \<Rightarrow> database" where
  "update_doc topic content vec_str update_meta doc_id d =
     d\<lparr>pinya_docs :=
         map (\<lambda>r. if row_id r = doc_id
                   then r\<lparr>row_topic := topic, row_content := content, row_embedding := vec_str,
                          row_metadata := row_metadata r ++ update_meta\<rparr>
                   else r)
           (pinya_docs d)\<rparr>"

text \<open>
  \<open>INSERT INTO pinya_docs (topic, content, embedding, metadata) VALUES ($1, $2, $3, $4)
  RETURNING id\<close>.  The id comes from the sequence; the primary key refuses one that a
  row already has.
\<close>

definition insert_doc :: "string \<Rightarrow> string \<Rightarrow> vec \<Rightarrow> jsonb \<Rightarrow> database \<Rightarrow> (error + int) \<times> database" where
  "insert_doc topic content vec_str meta d =
     (let new_id = next_id d in
      if new_id \<in> set (map row_id (pinya_docs d)) then (Inl DbError, d\<lparr>next_id := new_id + 1\<rparr>)
      else
        (Inr new_id,
         d\<lparr>pinya_docs := pinya_docs d @
               [\<lparr>row_id = new_id, row_topic = topic, row_content = content,
                 row_embedding = vec_str, row_metadata = meta\<rparr>],
           next_id := new_id + 1\<rparr>))"

text \<open>
  The part of \<open>upsert_knowledge\<close> after the duplicate check: embed, update or insert,
  audit.  It yields the action and the id.
\<close>

definition upsert_store ::
  "env \<Rightarrow> string \<Rightarrow> string \<Rightarrow> string \<Rightarrow> int \<Rightarrow> int option \<Rightarrow> state \<Rightarrow> (error + int) \<times> state" where
  "upsert_store e topic content spoiler user doc_id st =
     (case get_embedding e (''Topic: '' @ topic @ [CHR 0x0A] @ ''Content: '' @ content) st of
        (Inl err, s1) \<Rightarrow> (Inl err, s1)
      | (Inr vec_str, s1) \<Rightarrow>
          (let metadata = [''votes'' \<mapsto> JInt 0, ''flags'' \<mapsto> JInt 0,
                           ''is_spoiler'' \<mapsto> JBool (is_spoiler spoiler),
                           ''author_id'' \<mapsto> JInt user];
               update_meta = [''is_spoiler'' \<mapsto> JBool (is_spoiler spoiler),
                              ''last_editor_id'' \<mapsto> JInt user];
               description = ''**Topic:** '' @ topic @ [CHR 0x0A] @ ''**Content Length:** ''
                               @ str_int (int (length content)) @ '' chars''
           in
           if truthy_int doc_id then
             (case Database_execute (update_doc topic content vec_str update_meta (the doc_id)) s1 of
                (Inl err, s2) \<Rightarrow> (Inl err, s2)
              | (Inr u, s2) \<Rightarrow>
                  (case log_audit e ''Knowledge Updated'' description user s2 of
                     (Inl err, s3) \<Rightarrow> (Inl err, s3)
                   | (Inr u', s3) \<Rightarrow> (Inr (the doc_id), s3)))
           else
             (case Database_run (insert_doc topic content vec_str metadata) s1 of
                (Inl err, s2) \<Rightarrow> (Inl err, s2)
              | (Inr final_id, s2) \<Rightarrow>
                  (case log_audit e ''Knowledge Added'' description user s2 of
                     (Inl err, s3) \<Rightarrow> (Inl err, s3)
                   | (Inr u', s3) \<Rightarrow> (Inr final_id, s3)))))"

text \<open>The body of the \<open>try\<close> of \<open>upsert_knowledge\<close>; \<open>check_duplicate\<close> runs at its default 0.9.\<close>

definition upsert_try ::
  "env \<Rightarrow> string \<Rightarrow> string \<Rightarrow> string \<Rightarrow> int \<Rightarrow> int option \<Rightarrow> bool \<Rightarrow> state
     \<Rightarrow> (error + int option \<times> upsert_message option) \<times> state" where
  "upsert_try e topic content spoiler user doc_id check_dup st =
     (if doc_id = None \<and> check_dup then
        (case check_duplicate e (topic @ '' '' @ content) (9 / 10) st of
           (Inl err, s1) \<Rightarrow> (Inl err, s1)
         | (Inr is_dup, s1) \<Rightarrow>
             if is_dup then (Inr (None, Some DuplicateWarning), s1)
             else
               (case upsert_store e topic content spoiler user doc_id s1 of
                  (Inl err, s2) \<Rightarrow> (Inl err, s2)
                | (Inr final_id, s2) \<Rightarrow> (Inr (Some final_id, None), s2)))
      else
        (case upsert_store e topic content spoiler user doc_id st of
           (Inl err, s2) \<Rightarrow> (Inl err, s2)
         | (Inr final_id, s2) \<Rightarrow> (Inr (Some final_id, None), s2)))"

text \<open>\<open>upsert_knowledge\<close> returns \<open>(doc_id, error_message)\<close>; \<open>except Exception\<close> catches all.\<close>

definition upsert_knowledge ::
  "env \<Rightarrow> string \<Rightarrow> string \<Rightarrow> string \<Rightarrow> int \<Rightarrow> int option \<Rightarrow> bool \<Rightarrow> state
     \<Rightarrow> (int option \<times> upsert_message option) \<times> state" where
  "upsert_knowledge e topic content spoiler user doc_id check_dup st =
     (case upsert_try e topic content spoiler user doc_id check_dup st of
        (Inl err, s1) \<Rightarrow> ((None, Some (SaveFailed err)), s1)
      | (Inr r, s1) \<Rightarrow> (r, s1))"

text \<open>
  \<open>INSERT INTO aliases (trigger, replacement) VALUES ($1, $2)
  ON CONFLICT (trigger) DO UPDATE SET replacement = $2\<close>
\<close>

definition alias_upsert :: "string \<Rightarrow> string \<Rightarrow> database \<Rightarrow> database" where
  "alias_upsert trigger replacement d =
     d\<lparr>aliases :=
         (if trigger \<in> set (map fst (aliases d))
          then map (\<lambda>(t, r). if t = trigger then (t, replacement) else (t, r)) (aliases d)
          else aliases d @ [(trigger, replacement)])\<rparr>"

text \<open>The command \<open>alias\<close>.\<close>

definition alias_command :: "env \<Rightarrow> interaction \<Rightarrow> string \<Rightarrow> string \<Rightarrow> state \<Rightarrow> (error + unit) \<times> state" where
  "alias_command e interaction trigger replacement st =
     (case is_configured_role e ''librarian'' interaction st of
        (False, s0) \<Rightarrow> (Inl CheckFailure, s0)
      | (True, s0) \<Rightarrow>
          (case Database_execute (alias_upsert trigger replacement) (send Defer s0) of
             (Inl err, s1) \<Rightarrow> (Inr (), send (AliasError err) s1)
           | (Inr u, s1) \<Rightarrow>
               (case log_audit e ''Alias Updated''
                       (''**Trigger:** '' @ trigger @ [CHR 0x0A] @ ''**Replacement:** '' @ replacement)
                       (interaction_user interaction) (send (AliasSet trigger replacement) s1) of
                  (Inl err, s2) \<Rightarrow> (Inr (), send (AliasError err) s2)
                | (Inr u', s2) \<Rightarrow> (Inr (), s2))))"




section \<open>cogs/admin.py\<close>

definition config_threshold :: "env \<Rightarrow> interaction \<Rightarrow> real \<Rightarrow> state \<Rightarrow> (error + unit) \<times> state" where
  "config_threshold e interaction val st =
     (let s0 = send Defer st in
      if \<not> (1 / 10 \<le> val \<and> val \<le> 1) then (Inr (), send ValueMustBeInRange s0)
      else
        (case ConfigManager_set ''ai_threshold'' (str_float e val) s0 of
           (Inl err, s1) \<Rightarrow> (Inl err, s1)
         | (Inr u, s1) \<Rightarrow> (Inr (), send (ThresholdSet val) s1)))"

section \<open>cogs/query.py\<close>

text \<open>The loop of \<open>replace_aliases\<close> over the fetched rows.\<close>

fun sub_aliases :: "env \<Rightarrow> (string \<times> string) list \<Rightarrow> string \<Rightarrow> error + string" where
  "sub_aliases e [] text = Inr text"
| "sub_aliases e ((trigger, replacement) # rows) text =
     (case re_sub_word e trigger replacement text of
        Inl err \<Rightarrow> Inl err
      | Inr text' \<Rightarrow> sub_aliases e rows text')"

definition replace_aliases :: "env \<Rightarrow> string \<Rightarrow> state \<Rightarrow> (error + string) \<times> state" where
  "replace_aliases e text st =
     (case Database_fetch aliases st of
        (Inl err, s1) \<Rightarrow> (Inl err, s1)
      | (Inr rows, s1) \<Rightarrow> (sub_aliases e rows text, s1))"

text \<open>The block under \<open>if not results:\<close>.\<close>

definition report_gap :: "env \<Rightarrow> message \<Rightarrow> string \<Rightarrow> state \<Rightarrow> (error + unit) \<times> state" where
  "report_gap e message query_text st =
     (let gaps_channel_id = ConfigManager_get ''channel_knowledge_gaps'' None (cache st) in
      if truthy_str gaps_channel_id then
        (case py_int e (the gaps_channel_id) of
           None \<Rightarrow> (Inl ValueError, st)
         | Some cid \<Rightarrow>
             if get_channel e cid
             then channel_send e cid
                    (GapNotice cid query_text (author_id message) (get_cog_Knowledge e)) st
             else (Inr (), st))
      else (Inr (), st))"

text \<open>
  Steps 6 and 7 of \<open>on_message\<close>: the reply.  \<open>int(similarity * 100)\<close> truncates towards
  zero.  The contributor's name in the footer is a lookup in the gateway's user cache
  inside its own \<open>try\<close>; it is left out.
\<close>

definition confidence_text :: "search_hit list \<Rightarrow> string" where
  "confidence_text results =
     (case results of
        [] \<Rightarrow> ''General Knowledge''
      | top_result # rest \<Rightarrow>
          (let x = similarity top_result * 100;
               score = (if 0 \<le> x then \<lfloor>x\<rfloor> else \<lceil>x\<rceil>)
           in if score \<ge> 45 then ''High Confidence''
              else if score \<ge> 30 then ''Medium Confidence''
              else ''Low Confidence''))"

definition send_response :: "env \<Rightarrow> string \<Rightarrow> search_hit list \<Rightarrow> state \<Rightarrow> state" where
  "send_response e answer results st =
     send (Reply (bold_coords e answer) (confidence_text results)
             (case results of [] \<Rightarrow> None | top_result # rest \<Rightarrow> Some (hit_id top_result))) st"

text \<open>
  The body of \<open>async with message.channel.typing():\<close> in two halves: steps 1 to 3
  (aliases, threshold, translation, search) and steps 4 to 7 (gap, answer, reply).
\<close>

definition retrieve :: "env \<Rightarrow> string \<Rightarrow> state \<Rightarrow> (error + string \<times> search_hit list) \<times> state" where
  "retrieve e content st =
     (case replace_aliases e content st of
        (Inl err, s1) \<Rightarrow> (Inl err, s1)
      | (Inr query_text, s1) \<Rightarrow>
          (case ConfigManager_get ''ai_threshold'' (Some ''0.5'') (cache s1) of
             None \<Rightarrow> (Inl TypeError, s1)
           | Some threshold_str \<Rightarrow>
               (case py_float e threshold_str of
                  None \<Rightarrow> (Inl ValueError, s1)
                | Some threshold \<Rightarrow>
                    (case translate_to_english e query_text s1 of
                       (Inl err, s2) \<Rightarrow> (Inl err, s2)
                     | (Inr english_query, s2) \<Rightarrow>
                         (case search_knowledge_base e english_query threshold s2 of
                            (Inl err, s3) \<Rightarrow> (Inl err, s3)
                          | (Inr results, s3) \<Rightarrow> (Inr (query_text, results), s3))))))"

definition respond ::
  "env \<Rightarrow> message \<Rightarrow> string \<Rightarrow> search_hit list \<Rightarrow> state \<Rightarrow> (error + unit) \<times> state" where
  "respond e message query_text results st =
     (case (if results = [] then report_gap e message query_text st else (Inr (), st)) of
        (Inl err, s4) \<Rightarrow> (Inl err, s4)
      | (Inr u, s4) \<Rightarrow>
          (case generate_answer e query_text results s4 of
             (Inl err, s5) \<Rightarrow> (Inl err, s5)
           | (Inr answer, s5) \<Rightarrow> (Inr (), send_response e answer results s5)))"

definition answer_query :: "env \<Rightarrow> message \<Rightarrow> string \<Rightarrow> state \<Rightarrow> (error + unit) \<times> state" where
  "answer_query e message content st =
     (case retrieve e content (send Typing st) of
        (Inl err, s3) \<Rightarrow> (Inl err, s3)
      | (Inr (query_text, results), s3) \<Rightarrow> respond e message query_text results s3)"

text \<open>The message text without the two forms of the bot's mention.\<close>

definition clean_content :: "env \<Rightarrow> message \<Rightarrow> string" where
  "clean_content e message =
     (let content = strip (str_replace (''<@'' @ str_int (bot_user_id e) @ ''>'') []
                             (message_content message))
      in strip (str_replace (''<@!'' @ str_int (bot_user_id e) @ ''>'') [] content))"

definition on_message :: "env \<Rightarrow> message \<Rightarrow> state \<Rightarrow> (error + unit) \<times> state" where
  "on_message e message st =
     (if author_bot message then (Inr (), st)
      else if bot_user_id e \<in> set (mentions message) then
        (let content = clean_content e message in
         if content = [] then (Inr (), st)
         else if ConfigManager_get ''global_reply_enabled'' (Some ''true'') (cache st) = Some ''false''
           then (Inr (), st)
         else
           (let allowed_roles_raw = ConfigManager_get ''allowed_roles'' (Some []) (cache st) in
            if truthy_str allowed_roles_raw
               \<and> \<not> (\<exists>rid \<in> set (map str_int (author_roles message)).
                        rid \<in> set (split CHR '','' (the allowed_roles_raw)))
            then (Inr (), st)
            else answer_query e message content st))
      else (Inr (), st))"

text \<open>
  A live query: a message that passes the checks of \<open>on_message\<close> (not from a bot,
  mentions the bot, has text left, replies enabled, author in the role whitelist when
  there is one).
\<close>

definition live_query :: "env \<Rightarrow> message \<Rightarrow> state \<Rightarrow> bool" where
  "live_query e message st =
     (\<not> author_bot message
      \<and> bot_user_id e \<in> set (mentions message)
      \<and> clean_content e message \<noteq> []
      \<and> ConfigManager_get ''global_reply_enabled'' (Some ''true'') (cache st) \<noteq> Some ''false''
      \<and> (let allowed_roles_raw = ConfigManager_get ''allowed_roles'' (Some []) (cache st) in
         \<not> truthy_str allowed_roles_raw
         \<or> (\<exists>rid \<in> set (map str_int (author_roles message)).
               rid \<in> set (split CHR '','' (the allowed_roles_raw)))))"

definition is_gap_notice :: "event \<Rightarrow> bool" where
  "is_gap_notice ev = (case ev of GapNotice c q u b \<Rightarrow> True | _ \<Rightarrow> False)"

section \<open>Example data\<close>

text \<open>
  The cosine distance of pgvector in exact arithmetic, on vectors of non-zero norm:
  one minus the dot product over the root of the product of the squared norms, kept
  within \<open>[-1, 1]\<close>.
\<close>

definition dot :: "vec \<Rightarrow> vec \<Rightarrow> real" where
  "dot a b = sum_list (map (\<lambda>(x, y). x * y) (zip a b))"

definition pgvector_cosine_distance :: "vec \<Rightarrow> vec \<Rightarrow> real" where
  "pgvector_cosine_distance a b = 1 - max (- 1) (min 1 (dot a b / sqrt (dot a a * dot b b)))"

text \<open>
  An environment: a provider with two-dimensional embeddings (it puts the text
  "Fishing Use a rod" and the text "Topic: Fishing", newline, "Content: Use a rod" at
  similarity 0.8), a database that leaves rows of equal similarity in table order, a
  translator that knows
  one Tagalog sentence, a language model with one answer, a plain substring
  substitution in place of the regular expression, and a gateway that knows channel
  77.  The message below asks "paano mangisda sa pz" (how to fish in pz), and \<open>pz\<close> is
  an alias.
\<close>

definition demo_env :: env where
  "demo_env =
     \<lparr>embed_query = (\<lambda>text.
          if text = ''how to fish'' then Inr [1, 0]
          else if text = ''Fishing Use a rod'' then Inr [1, 0]
          else if text = ''Topic: Fishing'' @ [CHR 0x0A] @ ''Content: Use a rod''
            then Inr [4 / 5, 3 / 5]
          else Inr [0, 1]),
      cosine_distance = pgvector_cosine_distance,
      tie_order = (\<lambda>query_vec threshold d. 0),
      translate_chain = (\<lambda>text.
          if text = ''paano mangisda sa Project Zomboid'' then Inr ''how to fish'' else Inr text),
      answer_chain = (\<lambda>instruction_mode context_text question. Inr ''Use a fishing rod.''),
      re_sub_word = (\<lambda>trigger replacement text. Inr (str_replace trigger replacement text)),
      bold_coords = (\<lambda>answer. answer),
      py_int = (\<lambda>s. if s = ''77'' then Some 77 else if s = ''5'' then Some 5 else None),
      py_float = (\<lambda>s. if s = ''0.5'' then Some (1 / 2) else if s = ''0.2'' then Some (1 / 5) else None),
      str_float = (\<lambda>v. if v = 1 / 5 then ''0.2'' else if v = 1 / 2 then ''0.5'' else ''2.0''),
      bot_user_id = 1,
      get_channel = (\<lambda>c. c = 77),
      channel_send_refused = (\<lambda>c. False),
      get_cog_Knowledge = True\<rparr>"

definition demo_doc :: "int \<Rightarrow> string \<Rightarrow> vec \<Rightarrow> doc" where
  "demo_doc i t v =
     \<lparr>row_id = i, row_topic = t, row_content = ''...'', row_embedding = v,
      row_metadata = [''votes'' \<mapsto> JInt 3, ''flags'' \<mapsto> JInt 1,
                      ''is_spoiler'' \<mapsto> JBool False, ''author_id'' \<mapsto> JInt 9]\<rparr>"

text \<open>Five rows; to the query vector \<open>[1, 0]\<close> their similarities are 0.6, 1, 0, 0.8 and 5/13.\<close>

definition demo_docs :: "doc list" where
  "demo_docs =
     [demo_doc 1 ''Traps'' [3 / 5, 4 / 5],
      demo_doc 2 ''Fishing'' [1, 0],
      demo_doc 3 ''Cars'' [0, 1],
      demo_doc 4 ''Foraging'' [4 / 5, 3 / 5],
      demo_doc 5 ''Farming'' [5 / 13, 12 / 13]]"

definition demo_state :: state where
  "demo_state =
     \<lparr>db = \<lparr>config = [''role_librarian'' \<mapsto> ''5'', ''channel_knowledge_gaps'' \<mapsto> ''77''],
             pinya_docs = demo_docs,
             aliases = [(''pz'', ''Project Zomboid'')],
             next_id = 6\<rparr>,
      db_faults = [],
      cache = [''role_librarian'' \<mapsto> ''5'', ''channel_knowledge_gaps'' \<mapsto> ''77''],
      outbox = [],
      calls = []\<rparr>"

text \<open>The state of a fresh installation: empty tables, nothing configured.\<close>

definition fresh_state :: state where
  "fresh_state =
     \<lparr>db = \<lparr>config = Map.empty, pinya_docs = [], aliases = [], next_id = 1\<rparr>,
      db_faults = [], cache = Map.empty, outbox = [], calls = []\<rparr>"

definition demo_message :: message where
  "demo_message =
     \<lparr>author_bot = False, author_id = 42, author_roles = [8], mentions = [1],
      message_content = ''<@1> paano mangisda sa pz''\<rparr>"

definition demo_librarian :: interaction where
  "demo_librarian = \<lparr>interaction_user = 42, interaction_roles = [5]\<rparr>"




section \<open>Storage calls\<close>

lemma Database_fetch_cases:
  "Database_fetch query st =
     (if fails_next st then (Inl DbError, st\<lparr>db_faults := tl (db_faults st)\<rparr>)
      else (Inr (query (db st)), st\<lparr>db_faults := tl (db_faults st)\<rparr>))"
  by (simp add: Database_fetch_def Database_run_def fails_next_def split: list.split)

section \<open>The retrieval query\<close>

lemma sorted_take_desc:
  "sorted (map f xs) \<Longrightarrow> sorted (map f (take n xs))"
  by (simp add: take_map[symmetric] sorted_wrt_take)

lemma similarity_to_row [simp]: "similarity (to_row e q d) = similarity_to e q d"
  by (simp add: to_row_def)

lemma search_query_sorted:
  "sorted_wrt (\<lambda>a b. similarity b \<le> similarity a) (search_query e q t rows)"
proof -
  let ?f = "\<lambda>d. - similarity_to e q d"
  let ?xs = "sort_key ?f (sort_key (tie_order e q t) (filter (\<lambda>d. similarity_to e q d > t) rows))"
  have "sorted (map ?f ?xs)" by (rule sorted_sort_key)
  then have "sorted (map ?f (take 3 ?xs))" by (rule sorted_take_desc)
  then show ?thesis
    unfolding search_query_def by (simp add: sorted_wrt_map)
qed

lemma search_query_length: "length (search_query e q t rows) \<le> 3"
  unfolding search_query_def by simp

lemma search_query_member:
  assumes "h \<in> set (search_query e q t rows)"
  shows "\<exists>d \<in> set rows. h = to_row e q d \<and> t < similarity_to e q d"
proof -
  from assms obtain d where d: "d \<in> set (take 3 (sort_key (\<lambda>d. - similarity_to e q d)
          (sort_key (tie_order e q t) (filter (\<lambda>d. similarity_to e q d > t) rows))))"
    and h: "h = to_row e q d"
    unfolding search_query_def by auto
  from d have "d \<in> set (sort_key (\<lambda>d. - similarity_to e q d)
          (sort_key (tie_order e q t) (filter (\<lambda>d. similarity_to e q d > t) rows)))"
    by (rule in_set_takeD)
  then have "d \<in> set rows \<and> t < similarity_to e q d" by simp
  with h show ?thesis by blast
qed

lemma search_knowledge_base_Inr:
  assumes "search_knowledge_base e q t st = (Inr results, st')"
  shows "\<exists>query_vec. embed_query e q = Inr query_vec
           \<and> results = search_query e query_vec t (pinya_docs (db st)) \<and> \<not> fails_next st"
  using assms
  by (auto simp: search_knowledge_base_def get_embedding_def Database_fetch_cases fails_next_def
           split: sum.splits if_splits)

lemma demo_sims:
  "map (similarity_to demo_env [1, 0]) demo_docs = [3 / 5, 1, 0, 4 / 5, 5 / 13]"
  by (simp add: demo_docs_def demo_doc_def similarity_to_def demo_env_def
        pgvector_cosine_distance_def dot_def)

lemma demo_search_low:
  "map (\<lambda>h. (hit_id h, similarity h)) (search_query demo_env [1, 0] (1 / 5) demo_docs)
     = [(2, 1), (4, 4 / 5), (1, 3 / 5)]"
  by (simp add: search_query_def demo_docs_def demo_doc_def similarity_to_def demo_env_def
        pgvector_cosine_distance_def dot_def to_row_def)

lemma demo_search_fst:
  "fst (search_knowledge_base demo_env ''how to fish'' t demo_state)
     = Inr (search_query demo_env [1, 0] t demo_docs)"
  by (simp add: search_knowledge_base_def get_embedding_def Database_fetch_def Database_run_def
        demo_env_def demo_state_def)

text \<open>
  C1.  Whatever the query text and the threshold, the rows \<open>search_knowledge_base\<close>
  returns are rows of the table whose similarity (one minus the cosine distance of the
  stored embedding to the embedding of the query) is strictly above the threshold;
  they come in non-increasing order of similarity, and there are at most three.
\<close>

theorem search_knowledge_base_results:
  assumes "search_knowledge_base e q t st = (Inr results, st')"
  shows "\<exists>query_vec. embed_query e q = Inr query_vec
     \<and> (\<forall>h \<in> set results. \<exists>d \<in> set (pinya_docs (db st)).
           h = to_row e query_vec d
           \<and> similarity h = 1 - cosine_distance e (row_embedding d) query_vec
           \<and> t < similarity h)
     \<and> sorted_wrt (\<lambda>a b. similarity b \<le> similarity a) results
     \<and> length results \<le> 3"
proof -
  from search_knowledge_base_Inr[OF assms] obtain query_vec
    where qv: "embed_query e q = Inr query_vec"
      and r: "results = search_query e query_vec t (pinya_docs (db st))" by blast
  have "\<forall>h \<in> set results. \<exists>d \<in> set (pinya_docs (db st)).
           h = to_row e query_vec d
           \<and> similarity h = 1 - cosine_distance e (row_embedding d) query_vec
           \<and> t < similarity h"
  proof
    fix h assume "h \<in> set results"
    with r obtain d where "d \<in> set (pinya_docs (db st))" "h = to_row e query_vec d"
        "t < similarity_to e query_vec d"
      using search_query_member by blast
    then show "\<exists>d \<in> set (pinya_docs (db st)).
           h = to_row e query_vec d
           \<and> similarity h = 1 - cosine_distance e (row_embedding d) query_vec
           \<and> t < similarity h"
      by (auto simp: similarity_to_def)
  qed
  with qv r show ?thesis
    using search_query_sorted search_query_length by blast
qed

theorem search_knowledge_base_results_witness:
  "\<exists>results st'.
     search_knowledge_base demo_env ''how to fish'' (1 / 5) demo_state = (Inr results, st')
     \<and> map (\<lambda>h. (hit_id h, similarity h)) results = [(2, 1), (4, 4 / 5), (1, 3 / 5)]
     \<and> (\<exists>query_vec. embed_query demo_env ''how to fish'' = Inr query_vec
         \<and> (\<forall>h \<in> set results. \<exists>d \<in> set (pinya_docs (db demo_state)).
               h = to_row demo_env query_vec d
               \<and> similarity h = 1 - cosine_distance demo_env (row_embedding d) query_vec
               \<and> 1 / 5 < similarity h)
         \<and> sorted_wrt (\<lambda>a b. similarity b \<le> similarity a) results
         \<and> length results \<le> 3)"
proof -
  let ?r = "search_knowledge_base demo_env ''how to fish'' (1 / 5) demo_state"
  have h: "?r = (Inr (search_query demo_env [1, 0] (1 / 5) demo_docs), snd ?r)"
    by (simp add: prod_eq_iff demo_search_fst)
  show ?thesis
    by (rule exI[of _ "search_query demo_env [1, 0] (1 / 5) demo_docs"], rule exI[of _ "snd ?r"])
       (intro conjI h demo_search_low search_knowledge_base_results[OF h])
qed

section \<open>Raising the threshold\<close>









lemma search_knowledge_base_fst:
  "fst (search_knowledge_base e q t st) =
     (case embed_query e q of
        Inl err \<Rightarrow> Inl err
      | Inr query_vec \<Rightarrow>
          if fails_next st then Inl DbError
          else Inr (search_query e query_vec t (pinya_docs (db st))))"
  by (simp add: search_knowledge_base_def get_embedding_def Database_fetch_cases fails_next_def
        split: sum.split)






section \<open>The configuration store\<close>

lemma Database_execute_cases:
  "Database_execute stmt st =
     (if fails_next st then (Inl DbError, st\<lparr>db_faults := tl (db_faults st)\<rparr>)
      else (Inr (), st\<lparr>db := stmt (db st), db_faults := tl (db_faults st)\<rparr>))"
  by (simp add: Database_execute_def Database_run_def fails_next_def split: list.split)


lemma fails_next_send [simp]: "fails_next (send ev st) = fails_next st"
  by (simp add: fails_next_def send_def)

lemma send_fields [simp]:
  "db (send ev st) = db st" "cache (send ev st) = cache st"
  "db_faults (send ev st) = db_faults st" "calls (send ev st) = calls st"
  "outbox (send ev st) = outbox st @ [ev]"
  by (simp_all add: send_def)

text \<open>
  C2.  \<open>ConfigManager.set\<close> writes to the table, then to the cache: when the storage
  call raises, the error reaches the caller and neither the table nor the cache has
  changed; when it does not, both hold the value, and a \<open>get\<close> of the key that
  follows returns it.  \<open>get\<close> reads the cache only: it does not depend on the tables or
  on the outcome of storage calls.
\<close>

theorem config_set_write_through:
  assumes "ConfigManager_set key val st = (r, st')"
  shows "(fails_next st \<longrightarrow> r = Inl DbError \<and> db st' = db st \<and> cache st' = cache st)
       \<and> (\<not> fails_next st \<longrightarrow>
            r = Inr ()
            \<and> config (db st') = (config (db st))(key \<mapsto> val)
            \<and> cache st' = (cache st)(key \<mapsto> val)
            \<and> ConfigManager_get key dflt (cache st') = Some val)
       \<and> ConfigManager_get key dflt (cache (st\<lparr>db := d, db_faults := fs\<rparr>))
            = ConfigManager_get key dflt (cache st)"
  using assms
  by (auto simp: ConfigManager_set_def Database_execute_cases config_upsert_def
        ConfigManager_get_def split: if_splits)

theorem config_set_write_through_witness:
  "\<not> fails_next demo_state
   \<and> fst (ConfigManager_set ''ai_threshold'' ''0.2'' demo_state) = Inr ()
   \<and> ConfigManager_get ''ai_threshold'' (Some ''0.5'')
        (cache (snd (ConfigManager_set ''ai_threshold'' ''0.2'' demo_state))) = Some ''0.2''
   \<and> fails_next (demo_state\<lparr>db_faults := [True]\<rparr>)
   \<and> fst (ConfigManager_set ''ai_threshold'' ''0.2'' (demo_state\<lparr>db_faults := [True]\<rparr>)) = Inl DbError
   \<and> cache (snd (ConfigManager_set ''ai_threshold'' ''0.2'' (demo_state\<lparr>db_faults := [True]\<rparr>)))
        = cache demo_state
   \<and> ConfigManager_get ''ai_threshold'' (Some ''0.5'')
        (cache (snd (ConfigManager_set ''ai_threshold'' ''0.2'' (demo_state\<lparr>db_faults := [True]\<rparr>))))
        = Some ''0.5''"
proof -
  have ok: "\<not> fails_next demo_state" by (simp add: fails_next_def demo_state_def)
  have ko: "fails_next (demo_state\<lparr>db_faults := [True]\<rparr>)" by (simp add: fails_next_def)
  have get: "ConfigManager_get ''ai_threshold'' (Some ''0.5'') (cache demo_state) = Some ''0.5''"
    by (simp add: ConfigManager_get_def demo_state_def)
  from ok ko get
    config_set_write_through[of "''ai_threshold''" "''0.2''" demo_state
      "fst (ConfigManager_set ''ai_threshold'' ''0.2'' demo_state)"
      "snd (ConfigManager_set ''ai_threshold'' ''0.2'' demo_state)" "Some ''0.5''"]
    config_set_write_through[of "''ai_threshold''" "''0.2''" "demo_state\<lparr>db_faults := [True]\<rparr>"
      "fst (ConfigManager_set ''ai_threshold'' ''0.2'' (demo_state\<lparr>db_faults := [True]\<rparr>))"
      "snd (ConfigManager_set ''ai_threshold'' ''0.2'' (demo_state\<lparr>db_faults := [True]\<rparr>))"]
  show ?thesis by (simp add: ConfigManager_get_def)
qed

lemma ConfigManager_set_cases:
  "ConfigManager_set key val st =
     (if fails_next st then (Inl DbError, st\<lparr>db_faults := tl (db_faults st)\<rparr>)
      else (Inr (), st\<lparr>db := config_upsert key val (db st), db_faults := tl (db_faults st),
                       cache := (cache st)(key \<mapsto> val)\<rparr>))"
  by (simp add: ConfigManager_set_def Database_execute_cases)

text \<open>
  C8.  The threshold command checks the value before it touches anything: for a value
  below 0.1 or above 1.0 it answers that the value must be between 0.1 and 1.0, makes
  no storage call and leaves the \<open>config\<close> table and the cache as they were.  For a
  value in the range, the text of the value is stored under \<open>ai_threshold\<close> in the table
  and in the cache when the storage call does not raise; when it raises, the error
  leaves the command and nothing is stored.
\<close>

theorem config_threshold_validates:
  assumes "config_threshold e interaction val st = (r, st')"
  shows "(val < 1 / 10 \<or> 1 < val \<longrightarrow>
            r = Inr () \<and> outbox st' = outbox st @ [Defer, ValueMustBeInRange]
            \<and> db st' = db st \<and> cache st' = cache st \<and> db_faults st' = db_faults st)
       \<and> (1 / 10 \<le> val \<and> val \<le> 1 \<and> \<not> fails_next st \<longrightarrow>
            r = Inr () \<and> outbox st' = outbox st @ [Defer, ThresholdSet val]
            \<and> config (db st') ''ai_threshold'' = Some (str_float e val)
            \<and> cache st' ''ai_threshold'' = Some (str_float e val))
       \<and> (1 / 10 \<le> val \<and> val \<le> 1 \<and> fails_next st \<longrightarrow>
            r = Inl DbError \<and> db st' = db st \<and> cache st' = cache st)"
  using assms
  by (auto simp: config_threshold_def ConfigManager_set_cases config_upsert_def Let_def
        split: if_splits)

theorem config_threshold_validates_witness:
  "((2::real) < 1 / 10 \<or> 1 < (2::real))
   \<and> fst (config_threshold demo_env demo_librarian 2 demo_state) = Inr ()
   \<and> outbox (snd (config_threshold demo_env demo_librarian 2 demo_state)) = [Defer, ValueMustBeInRange]
   \<and> db (snd (config_threshold demo_env demo_librarian 2 demo_state)) = db demo_state
   \<and> cache (snd (config_threshold demo_env demo_librarian 2 demo_state)) = cache demo_state
   \<and> (1 / 10 \<le> (1 / 5 :: real) \<and> (1 / 5 :: real) \<le> 1 \<and> \<not> fails_next demo_state)
   \<and> fst (config_threshold demo_env demo_librarian (1 / 5) demo_state) = Inr ()
   \<and> config (db (snd (config_threshold demo_env demo_librarian (1 / 5) demo_state))) ''ai_threshold''
        = Some ''0.2''
   \<and> cache (snd (config_threshold demo_env demo_librarian (1 / 5) demo_state)) ''ai_threshold''
        = Some ''0.2''"
proof -
  have ok: "\<not> fails_next demo_state" by (simp add: fails_next_def demo_state_def)
  have sf: "str_float demo_env (1 / 5) = ''0.2''" by (simp add: demo_env_def)
  have ob: "outbox demo_state = []" by (simp add: demo_state_def)
  from ok sf ob
    config_threshold_validates[of demo_env demo_librarian 2 demo_state
      "fst (config_threshold demo_env demo_librarian 2 demo_state)"
      "snd (config_threshold demo_env demo_librarian 2 demo_state)"]
    config_threshold_validates[of demo_env demo_librarian "1 / 5" demo_state
      "fst (config_threshold demo_env demo_librarian (1 / 5) demo_state)"
      "snd (config_threshold demo_env demo_librarian (1 / 5) demo_state)"]
  show ?thesis by simp
qed

section \<open>Forgetting a topic, setting an alias\<close>



lemma log_audit_frame:
  "db (snd (log_audit e title description user st)) = db st
   \<and> db_faults (snd (log_audit e title description user st)) = db_faults st
   \<and> cache (snd (log_audit e title description user st)) = cache st
   \<and> calls (snd (log_audit e title description user st)) = calls st"
  by (simp add: log_audit_def channel_send_def Let_def split: option.split)













section \<open>Saving knowledge\<close>

lemma get_embedding_frame:
  "get_embedding e text st = (embed_query e text, st\<lparr>calls := calls st @ [EmbedCall text]\<rparr>)"
  by (simp add: get_embedding_def)

lemma snd_bind_result:
  "snd (case p of (Inl err, s) \<Rightarrow> (Inl err, s) | (Inr x, s) \<Rightarrow> (Inr (f x), s)) = snd p"
  by (cases p) (simp split: sum.split)

lemma upsert_store_update:
  assumes "doc_id \<noteq> 0"
      and "embed_query e (''Topic: '' @ topic @ [CHR 0x0A] @ ''Content: '' @ content) = Inr v"
      and "\<not> fails_next st"
  shows "db (snd (upsert_store e topic content spoiler user (Some doc_id) st))
           = update_doc topic content v
               [''is_spoiler'' \<mapsto> JBool (is_spoiler spoiler), ''last_editor_id'' \<mapsto> JInt user]
               doc_id (db st)"
proof -
  let ?s1 = "st\<lparr>calls := calls st @ [EmbedCall (''Topic: '' @ topic @ [CHR 0x0A] @ ''Content: '' @ content)]\<rparr>"
  have f: "\<not> fails_next ?s1" using assms(3) by (simp add: fails_next_def)
  show ?thesis
    using assms(1,2) f
    by (simp add: upsert_store_def get_embedding_frame truthy_int_def Let_def
          Database_execute_cases snd_bind_result log_audit_frame)
qed


lemma upsert_knowledge_edit:
  "upsert_knowledge e topic content spoiler user (Some doc_id) check_dup st =
     (case upsert_store e topic content spoiler user (Some doc_id) st of
        (Inl err, s2) \<Rightarrow> ((None, Some (SaveFailed err)), s2)
      | (Inr final_id, s2) \<Rightarrow> ((Some final_id, None), s2))"
  by (simp add: upsert_knowledge_def upsert_try_def split: prod.split sum.split)

lemma snd_upsert_knowledge_edit:
  "snd (upsert_knowledge e topic content spoiler user (Some doc_id) check_dup st)
     = snd (upsert_store e topic content spoiler user (Some doc_id) st)"
  by (simp add: upsert_knowledge_edit split: prod.split sum.split)

text \<open>
  C5.  An edit (\<open>upsert_knowledge\<close> with the id of a record) whose embedding call and
  storage call succeed replaces topic, content and embedding of the rows with that id
  and merges \<open>is_spoiler\<close> and \<open>last_editor_id\<close> into their metadata: every such row
  ends with the new topic, content and embedding, with the editor as
  \<open>last_editor_id\<close>, and with the \<open>votes\<close> and \<open>flags\<close> it had.  Rows with another id
  are as they were.
\<close>

theorem edit_keeps_votes_and_flags:
  assumes "doc_id \<noteq> 0"
      and "embed_query e (''Topic: '' @ topic @ [CHR 0x0A] @ ''Content: '' @ content) = Inr v"
      and "\<not> fails_next st"
      and "upsert_knowledge e topic content spoiler user (Some doc_id) check_dup st = (res, st')"
  shows "pinya_docs (db st') =
           map (\<lambda>r. if row_id r = doc_id
                     then r\<lparr>row_topic := topic, row_content := content, row_embedding := v,
                            row_metadata := (row_metadata r)
                              (''is_spoiler'' \<mapsto> JBool (is_spoiler spoiler),
                               ''last_editor_id'' \<mapsto> JInt user)\<rparr>
                     else r)
             (pinya_docs (db st))
       \<and> (\<forall>r \<in> set (pinya_docs (db st)). row_id r = doc_id \<longrightarrow>
            (\<exists>r' \<in> set (pinya_docs (db st')).
               row_id r' = doc_id \<and> row_topic r' = topic \<and> row_content r' = content
               \<and> row_embedding r' = v
               \<and> row_metadata r' ''last_editor_id'' = Some (JInt user)
               \<and> row_metadata r' ''votes'' = row_metadata r ''votes''
               \<and> row_metadata r' ''flags'' = row_metadata r ''flags''))"
proof -
  let ?edit = "\<lambda>r. if row_id r = doc_id
                     then r\<lparr>row_topic := topic, row_content := content, row_embedding := v,
                            row_metadata := (row_metadata r)
                              (''is_spoiler'' \<mapsto> JBool (is_spoiler spoiler),
                               ''last_editor_id'' \<mapsto> JInt user)\<rparr>
                     else r"
  from assms(4) have "st' = snd (upsert_store e topic content spoiler user (Some doc_id) st)"
    using snd_upsert_knowledge_edit[of e topic content spoiler user doc_id check_dup st] by simp
  with upsert_store_update[OF assms(1-3)]
  have docs: "pinya_docs (db st') = map ?edit (pinya_docs (db st))"
    by (simp add: update_doc_def)
  have "\<exists>r' \<in> set (pinya_docs (db st')).
               row_id r' = doc_id \<and> row_topic r' = topic \<and> row_content r' = content
               \<and> row_embedding r' = v
               \<and> row_metadata r' ''last_editor_id'' = Some (JInt user)
               \<and> row_metadata r' ''votes'' = row_metadata r ''votes''
               \<and> row_metadata r' ''flags'' = row_metadata r ''flags''"
    if r: "r \<in> set (pinya_docs (db st))" "row_id r = doc_id" for r
  proof -
    from r(1) have "?edit r \<in> set (pinya_docs (db st'))" unfolding docs set_map by (rule imageI)
    with r(2) show ?thesis by (intro bexI[of _ "?edit r"]) simp_all
  qed
  with docs show ?thesis by blast
qed

theorem edit_keeps_votes_and_flags_witness:
  "(2::int) \<noteq> 0
   \<and> embed_query demo_env (''Topic: '' @ ''Fishing'' @ [CHR 0x0A] @ ''Content: '' @ ''Use a rod near water'')
        = Inr [0, 1]
   \<and> \<not> fails_next demo_state
   \<and> map (\<lambda>r. (row_id r, row_topic r, row_content r, row_embedding r,
                 row_metadata r ''votes'', row_metadata r ''flags'',
                 row_metadata r ''last_editor_id''))
        (filter (\<lambda>r. row_id r = 2)
          (pinya_docs (db (snd (upsert_knowledge demo_env ''Fishing'' ''Use a rod near water''
                                   ''yes'' 42 (Some 2) True demo_state)))))
      = [(2, ''Fishing'', ''Use a rod near water'', [0, 1],
          Some (JInt 3), Some (JInt 1), Some (JInt 42))]"
proof -
  have a: "(2::int) \<noteq> 0" by simp
  have b: "embed_query demo_env (''Topic: '' @ ''Fishing'' @ [CHR 0x0A] @ ''Content: '' @ ''Use a rod near water'')
        = Inr [0, 1]" by (simp add: demo_env_def)
  have c: "\<not> fails_next demo_state" by (simp add: fails_next_def demo_state_def)
  have d: "pinya_docs (db demo_state) = demo_docs" by (simp add: demo_state_def)
  from edit_keeps_votes_and_flags[OF a b c surjective_pairing, of "''yes''" 42 True]
  show ?thesis using a b c
    by (simp add: d demo_docs_def demo_doc_def)
qed

section \<open>The duplicate check\<close>

lemma sort_key_Nil_iff: "(sort_key f xs = []) = (xs = [])"
proof -
  have "length (sort_key f xs) = length xs" by (rule length_sort)
  then show ?thesis by (metis length_0_conv)
qed

lemma search_query_nonempty:
  "(search_query e q t rows \<noteq> []) = (\<exists>d \<in> set rows. t < similarity_to e q d)"
proof -
  have "(search_query e q t rows = []) = (filter (\<lambda>d. similarity_to e q d > t) rows = [])"
    unfolding search_query_def by (simp add: take_eq_Nil sort_key_Nil_iff)
  then show ?thesis by (auto simp: filter_empty_conv)
qed

lemma check_duplicate_fst:
  "fst (check_duplicate e text t st) =
     (case embed_query e text of
        Inl err \<Rightarrow> Inl err
      | Inr query_vec \<Rightarrow>
          if fails_next st then Inl DbError
          else Inr (\<exists>d \<in> set (pinya_docs (db st)). t < similarity_to e query_vec d))"
proof -
  have "fst (check_duplicate e text t st) =
          (case fst (search_knowledge_base e text t st) of
             Inl err \<Rightarrow> Inl err | Inr results \<Rightarrow> Inr (length results > 0))"
    by (simp add: check_duplicate_def split: prod.split sum.split)
  then show ?thesis
    by (simp add: search_knowledge_base_fst search_query_nonempty split: sum.split)
qed

lemma check_duplicate_db:
  "db (snd (check_duplicate e text t st)) = db st"
  by (simp add: check_duplicate_def search_knowledge_base_def get_embedding_def
        Database_fetch_cases split: prod.split sum.split)

lemma upsert_store_insert:
  assumes run: "upsert_store e topic content spoiler user None s = (Inr new_id, s')"
      and emb: "embed_query e (''Topic: '' @ topic @ [CHR 0x0A] @ ''Content: '' @ content) = Inr v"
  shows "pinya_docs (db s') = pinya_docs (db s) @
           [\<lparr>row_id = new_id, row_topic = topic, row_content = content, row_embedding = v,
             row_metadata = [''votes'' \<mapsto> JInt 0, ''flags'' \<mapsto> JInt 0,
                             ''is_spoiler'' \<mapsto> JBool (is_spoiler spoiler),
                             ''author_id'' \<mapsto> JInt user]\<rparr>]"
proof -
  let ?s1 = "s\<lparr>calls := calls s @ [EmbedCall (''Topic: '' @ topic @ [CHR 0x0A] @ ''Content: '' @ content)]\<rparr>"
  let ?meta = "[''votes'' \<mapsto> JInt 0, ''flags'' \<mapsto> JInt 0,
                ''is_spoiler'' \<mapsto> JBool (is_spoiler spoiler), ''author_id'' \<mapsto> JInt user]"
  obtain ri s2 where ins: "Database_run (insert_doc topic content v ?meta) ?s1 = (ri, s2)"
    by (cases "Database_run (insert_doc topic content v ?meta) ?s1")
  let ?la = "log_audit e ''Knowledge Added''
               (''**Topic:** '' @ topic @ [CHR 0x0A] @ ''**Content Length:** ''
                  @ str_int (int (length content)) @ '' chars'') user s2"
  from run emb ins have ri: "ri = Inr new_id" and s': "s' = snd ?la"
    by (auto simp: upsert_store_def get_embedding_frame truthy_int_def Let_def
          split: sum.splits prod.splits)
  from ins ri have "pinya_docs (db s2) = pinya_docs (db s) @
           [\<lparr>row_id = new_id, row_topic = topic, row_content = content, row_embedding = v,
             row_metadata = ?meta\<rparr>]"
    by (auto simp: Database_run_def insert_doc_def Let_def split: list.splits if_splits)
  with s' log_audit_frame[of e _ _ user s2] show ?thesis by simp
qed

text \<open>
  C4.  The claim asks that a candidate identical to a record's topic and content be
  found a duplicate.  The code decides otherwise.  Once a topic and content have been
  taught (the insertion returned an id), the check of the very same topic and content
  returns whether the embedding of \<open>topic + " " + content\<close>, which the check computes,
  has similarity above 0.9 to the embedding of
  \<open>"Topic: " + topic + newline + "Content: " + content\<close>, which the record was stored
  with: the check compares two different texts, and the verdict is the provider's
  similarity between them, not 1.
\<close>

theorem duplicate_check_compares_two_texts:
  assumes taught: "upsert_knowledge e topic content spoiler user None True st
                     = ((Some new_id, None), st1)"
      and candidate: "embed_query e (topic @ '' '' @ content) = Inr candidate_vec"
      and stored: "embed_query e (''Topic: '' @ topic @ [CHR 0x0A] @ ''Content: '' @ content)
                     = Inr stored_vec"
      and ok: "\<not> fails_next st1"
  shows "(\<exists>r \<in> set (pinya_docs (db st1)).
            row_id r = new_id \<and> row_topic r = topic \<and> row_content r = content
            \<and> row_embedding r = stored_vec)
       \<and> fst (check_duplicate e (topic @ '' '' @ content) (9 / 10) st1)
           = Inr (9 / 10 < 1 - cosine_distance e stored_vec candidate_vec)"
proof -
  let ?cand = "topic @ '' '' @ content"
  obtain rc s1 where cd: "check_duplicate e ?cand (9 / 10) st = (rc, s1)"
    by (cases "check_duplicate e ?cand (9 / 10) st")
  from taught cd have rc: "rc = Inr False"
    and us: "upsert_store e topic content spoiler user None s1 = (Inr new_id, st1)"
    by (auto simp: upsert_knowledge_def upsert_try_def split: sum.splits prod.splits if_splits)
  from cd rc have "fst (check_duplicate e ?cand (9 / 10) st) = Inr False" by simp
  with candidate have none: "\<not> (\<exists>d \<in> set (pinya_docs (db st)). 9 / 10 < similarity_to e candidate_vec d)"
    by (simp add: check_duplicate_fst split: if_splits)
  from cd check_duplicate_db[of e ?cand "9 / 10" st] have "db s1 = db st" by simp
  with upsert_store_insert[OF us stored]
  have docs: "pinya_docs (db st1) = pinya_docs (db st) @
           [\<lparr>row_id = new_id, row_topic = topic, row_content = content, row_embedding = stored_vec,
             row_metadata = [''votes'' \<mapsto> JInt 0, ''flags'' \<mapsto> JInt 0,
                             ''is_spoiler'' \<mapsto> JBool (is_spoiler spoiler),
                             ''author_id'' \<mapsto> JInt user]\<rparr>]"
    by simp
  have "fst (check_duplicate e ?cand (9 / 10) st1)
           = Inr (9 / 10 < 1 - cosine_distance e stored_vec candidate_vec)"
    using candidate ok none
    by (auto simp: check_duplicate_fst docs similarity_to_def)
  moreover have "\<exists>r \<in> set (pinya_docs (db st1)).
            row_id r = new_id \<and> row_topic r = topic \<and> row_content r = content
            \<and> row_embedding r = stored_vec"
    unfolding docs by simp
  ultimately show ?thesis by blast
qed

lemma demo_teach_fresh:
  "fst (upsert_knowledge demo_env ''Fishing'' ''Use a rod'' ''no'' 42 None True fresh_state)
     = (Some 1, None)"
  "\<not> fails_next (snd (upsert_knowledge demo_env ''Fishing'' ''Use a rod'' ''no'' 42 None True
                        fresh_state))"
  by (simp_all add: upsert_knowledge_def upsert_try_def check_duplicate_def
        search_knowledge_base_def get_embedding_def Database_fetch_def Database_run_def
        search_query_def upsert_store_def truthy_int_def insert_doc_def log_audit_def
        ConfigManager_get_def truthy_str_def fresh_state_def demo_env_def Let_def fails_next_def)

theorem duplicate_check_compares_two_texts_witness:
  "fst (upsert_knowledge demo_env ''Fishing'' ''Use a rod'' ''no'' 42 None True fresh_state)
     = (Some 1, None)
   \<and> embed_query demo_env (''Fishing'' @ '' '' @ ''Use a rod'') = Inr [1, 0]
   \<and> embed_query demo_env (''Topic: '' @ ''Fishing'' @ [CHR 0x0A] @ ''Content: '' @ ''Use a rod'')
       = Inr [4 / 5, 3 / 5]
   \<and> 1 - cosine_distance demo_env [4 / 5, 3 / 5] [1, 0] = 4 / 5
   \<and> fst (check_duplicate demo_env (''Fishing'' @ '' '' @ ''Use a rod'') (9 / 10)
           (snd (upsert_knowledge demo_env ''Fishing'' ''Use a rod'' ''no'' 42 None True
                   fresh_state)))
       = Inr False"
proof -
  let ?u = "upsert_knowledge demo_env ''Fishing'' ''Use a rod'' ''no'' 42 None True fresh_state"
  have t: "?u = ((Some 1, None), snd ?u)"
    using demo_teach_fresh(1) by (simp add: prod_eq_iff)
  have c: "embed_query demo_env (''Fishing'' @ '' '' @ ''Use a rod'') = Inr [1, 0]"
    by (simp add: demo_env_def)
  have s: "embed_query demo_env (''Topic: '' @ ''Fishing'' @ [CHR 0x0A] @ ''Content: '' @ ''Use a rod'')
       = Inr [4 / 5, 3 / 5]"
    by (simp add: demo_env_def)
  have d: "1 - cosine_distance demo_env [4 / 5, 3 / 5] [1, 0] = 4 / 5"
    by (simp add: demo_env_def pgvector_cosine_distance_def dot_def)
  from duplicate_check_compares_two_texts[OF t c s demo_teach_fresh(2)]
  have "fst (check_duplicate demo_env (''Fishing'' @ '' '' @ ''Use a rod'') (9 / 10) (snd ?u))
       = Inr (9 / 10 < 1 - cosine_distance demo_env [4 / 5, 3 / 5] [1, 0])"
    by (rule conjunct2)
  then have "fst (check_duplicate demo_env (''Fishing'' @ '' '' @ ''Use a rod'') (9 / 10) (snd ?u))
       = Inr False"
    unfolding d by simp
  with demo_teach_fresh(1) c s d show ?thesis by (intro conjI)
qed

section \<open>Answering a query\<close>

lemma demo_clean: "clean_content demo_env demo_message = ''paano mangisda sa pz''"
  by (simp add: clean_content_def demo_env_def demo_message_def str_int_def str_nat.simps
        strip_def is_space_def)

lemma on_message_live:
  "live_query e message st \<Longrightarrow>
     on_message e message st = answer_query e message (clean_content e message) st"
  by (auto simp: live_query_def on_message_def Let_def)

lemma replace_aliases_cases:
  "replace_aliases e text st =
     (if fails_next st then (Inl DbError, st\<lparr>db_faults := tl (db_faults st)\<rparr>)
      else (sub_aliases e (aliases (db st)) text, st\<lparr>db_faults := tl (db_faults st)\<rparr>))"
  by (simp add: replace_aliases_def Database_fetch_cases)

lemma retrieve_calls:
  assumes "retrieve e content st = (res, s3)"
  shows "outbox s3 = outbox st \<and> cache s3 = cache st \<and> db s3 = db st
       \<and> (calls s3 = calls st
          \<or> (\<exists>q. sub_aliases e (aliases (db st)) content = Inr q
                \<and> (calls s3 = calls st @ [TranslateCall q]
                   \<or> (\<exists>en. translate_chain e q = Inr en
                         \<and> calls s3 = calls st @ [TranslateCall q, EmbedCall en]))))
       \<and> (\<forall>q results. res = Inr (q, results) \<longrightarrow>
            sub_aliases e (aliases (db st)) content = Inr q
            \<and> (\<exists>en. translate_chain e q = Inr en
                  \<and> calls s3 = calls st @ [TranslateCall q, EmbedCall en]))"
  using assms
  by (auto simp: retrieve_def replace_aliases_cases translate_to_english_def
        search_knowledge_base_def get_embedding_def Database_fetch_cases
        split: if_splits sum.splits option.splits prod.splits)


lemma is_gap_notice_simps [simp]:
  "is_gap_notice (GapNotice c q u b)" "\<not> is_gap_notice (Reply a f v)" "\<not> is_gap_notice Typing"
  by (simp_all add: is_gap_notice_def)

lemma report_gap_effect:
  assumes "report_gap e message q st = (r, s4)"
  shows "cache s4 = cache st \<and> db s4 = db st \<and> calls s4 = calls st
       \<and> (\<exists>evs. outbox s4 = outbox st @ evs
             \<and> evs = (case ConfigManager_get ''channel_knowledge_gaps'' None (cache st) of
                         None \<Rightarrow> []
                       | Some gaps_channel_id \<Rightarrow>
                           (case py_int e gaps_channel_id of
                              None \<Rightarrow> []
                            | Some cid \<Rightarrow>
                                if gaps_channel_id \<noteq> [] \<and> get_channel e cid
                                   \<and> \<not> channel_send_refused e cid
                                then [GapNotice cid q (author_id message) (get_cog_Knowledge e)]
                                else [])))
       \<and> ((\<forall>g. ConfigManager_get ''channel_knowledge_gaps'' None (cache st) = Some g
                     \<and> g \<noteq> [] \<longrightarrow> (\<exists>cid. py_int e g = Some cid
                           \<and> (get_channel e cid \<longrightarrow> \<not> channel_send_refused e cid))) \<longrightarrow> r = Inr ())"
  using assms
  by (auto simp: report_gap_def channel_send_def Let_def truthy_str_def
        split: option.splits if_splits)

lemma generate_answer_effect:
  "generate_answer e question context_chunks st = (r, s5) \<Longrightarrow>
     outbox s5 = outbox st \<and> cache s5 = cache st \<and> db s5 = db st
     \<and> (\<exists>mode ctx. calls s5 = calls st @ [AnswerCall mode ctx question]
           \<and> (context_chunks = [] \<longrightarrow>
                mode = ''Use your general knowledge about Project Zomboid to answer.''
                \<and> ctx = ''No database context available.''))"
  by (auto simp: generate_answer_def Let_def)

lemma respond_nonempty:
  assumes "results \<noteq> []" and "respond e message q results s = (r, s')"
  shows "\<exists>evs. outbox s' = outbox s @ evs \<and> filter is_gap_notice evs = []"
    and "\<exists>mode ctx. calls s' = calls s @ [AnswerCall mode ctx q]"
  using assms
  by (auto simp: respond_def generate_answer_def Let_def send_response_def
        split: sum.splits prod.splits)

lemma respond_empty:
  assumes "respond e message q [] s = (r, s')"
  shows "\<exists>evs. outbox s' = outbox s @ evs
           \<and> filter is_gap_notice evs =
                (case ConfigManager_get ''channel_knowledge_gaps'' None (cache s) of
                   None \<Rightarrow> []
                 | Some gaps_channel_id \<Rightarrow>
                     (case py_int e gaps_channel_id of
                        None \<Rightarrow> []
                      | Some cid \<Rightarrow>
                          if gaps_channel_id \<noteq> [] \<and> get_channel e cid
                                   \<and> \<not> channel_send_refused e cid
                          then [GapNotice cid q (author_id message) (get_cog_Knowledge e)]
                          else []))"
    and "calls s' = calls s
         \<or> calls s' = calls s @ [AnswerCall ''Use your general knowledge about Project Zomboid to answer.''
                                  ''No database context available.'' q]"
    and "(\<forall>g. ConfigManager_get ''channel_knowledge_gaps'' None (cache s) = Some g
                     \<and> g \<noteq> [] \<longrightarrow> (\<exists>cid. py_int e g = Some cid
                           \<and> (get_channel e cid \<longrightarrow> \<not> channel_send_refused e cid)))
         \<Longrightarrow> calls s' = calls s @ [AnswerCall ''Use your general knowledge about Project Zomboid to answer.''
                                  ''No database context available.'' q]"
proof -
  obtain rg s4 where g: "report_gap e message q s = (rg, s4)" by (cases "report_gap e message q s")
  note G = report_gap_effect[OF g]
  obtain ra s5 where a: "generate_answer e q [] s4 = (ra, s5)"
    by (cases "generate_answer e q [] s4")
  note A = generate_answer_effect[OF a]
  have s': "s' = (case rg of Inl err \<Rightarrow> s4
                  | Inr u \<Rightarrow> (case ra of Inl err \<Rightarrow> s5 | Inr answer \<Rightarrow> send_response e answer [] s5))"
    using assms g a by (auto simp: respond_def split: sum.splits)
  show "\<exists>evs. outbox s' = outbox s @ evs
           \<and> filter is_gap_notice evs =
                (case ConfigManager_get ''channel_knowledge_gaps'' None (cache s) of
                   None \<Rightarrow> []
                 | Some gaps_channel_id \<Rightarrow>
                     (case py_int e gaps_channel_id of
                        None \<Rightarrow> []
                      | Some cid \<Rightarrow>
                          if gaps_channel_id \<noteq> [] \<and> get_channel e cid
                                   \<and> \<not> channel_send_refused e cid
                          then [GapNotice cid q (author_id message) (get_cog_Knowledge e)]
                          else []))"
    using G A unfolding s'
    by (auto simp: send_response_def split: sum.splits option.splits)
  show "calls s' = calls s
         \<or> calls s' = calls s @ [AnswerCall ''Use your general knowledge about Project Zomboid to answer.''
                                  ''No database context available.'' q]"
    using G A unfolding s'
    by (auto simp: send_response_def split: sum.splits)
  show "calls s' = calls s @ [AnswerCall ''Use your general knowledge about Project Zomboid to answer.''
                                  ''No database context available.'' q]"
    if "\<forall>g. ConfigManager_get ''channel_knowledge_gaps'' None (cache s) = Some g
                     \<and> g \<noteq> [] \<longrightarrow> (\<exists>cid. py_int e g = Some cid
                           \<and> (get_channel e cid \<longrightarrow> \<not> channel_send_refused e cid))"
    using that G A unfolding s'
    by (auto simp: send_response_def split: sum.splits)
qed


lemma respond_calls:
  assumes "respond e message q results s = (r, s')"
  shows "(calls s' = calls s \<or> (\<exists>mode ctx. calls s' = calls s @ [AnswerCall mode ctx q]))
       \<and> (r = Inr () \<longrightarrow> (\<exists>mode ctx. calls s' = calls s @ [AnswerCall mode ctx q]))"
proof (cases "results = []")
  case True
  have "\<exists>mode ctx. calls s' = calls s @ [AnswerCall mode ctx q]" if "r = Inr ()"
    using that assms True
    by (auto simp: respond_def generate_answer_def Let_def send_response_def
          split: sum.splits prod.splits dest: report_gap_effect)
  with respond_empty(2)[OF assms[unfolded True]] show ?thesis by blast
next
  case False
  from respond_nonempty(2)[OF False assms] show ?thesis by blast
qed


lemma demo_live:
  "cache st ''global_reply_enabled'' = None \<Longrightarrow> cache st ''allowed_roles'' = None
     \<Longrightarrow> live_query demo_env demo_message st"
  by (simp add: live_query_def demo_clean)
     (simp add: demo_env_def demo_message_def ConfigManager_get_def truthy_str_def)






text \<open>
  C10.  For a live query, the provider calls \<open>on_message\<close> makes are an initial part of
  this sequence: the translation of the alias-substituted text, the embedding of the
  English translation, and the answer chain with the alias-substituted text (not the
  translation) as the question.  When \<open>on_message\<close> returns normally the three calls
  were all made, in this order.
\<close>

theorem question_is_alias_substituted_text:
  assumes live: "live_query e message st"
      and run: "on_message e message st = (r, st')"
  shows "(calls st' = calls st
          \<or> (\<exists>query_text. sub_aliases e (aliases (db st)) (clean_content e message) = Inr query_text
                \<and> (calls st' = calls st @ [TranslateCall query_text]
                   \<or> (\<exists>english_query. translate_chain e query_text = Inr english_query
                         \<and> (calls st' = calls st @ [TranslateCall query_text, EmbedCall english_query]
                            \<or> (\<exists>mode ctx. calls st' = calls st
                                  @ [TranslateCall query_text, EmbedCall english_query,
                                     AnswerCall mode ctx query_text]))))))
       \<and> (r = Inr () \<longrightarrow>
            (\<exists>query_text english_query mode ctx.
               sub_aliases e (aliases (db st)) (clean_content e message) = Inr query_text
               \<and> translate_chain e query_text = Inr english_query
               \<and> calls st' = calls st
                    @ [TranslateCall query_text, EmbedCall english_query,
                       AnswerCall mode ctx query_text]))"
proof -
  obtain res s3 where ret: "retrieve e (clean_content e message) (send Typing st) = (res, s3)"
    by (cases "retrieve e (clean_content e message) (send Typing st)")
  note R = retrieve_calls[OF ret, simplified]
  show ?thesis
  proof (cases res)
    case (Inl err)
    with live run ret have "st' = s3" "r = Inl err"
      by (simp_all add: on_message_live answer_query_def)
    with R show ?thesis by auto
  next
    case (Inr p)
    obtain query_text results where p: "p = (query_text, results)" by (cases p)
    from live run ret Inr p have resp: "respond e message query_text results s3 = (r, st')"
      by (simp add: on_message_live answer_query_def)
    from R Inr p obtain english_query
      where q: "sub_aliases e (aliases (db st)) (clean_content e message) = Inr query_text"
        and en: "translate_chain e query_text = Inr english_query"
        and c3: "calls s3 = calls st @ [TranslateCall query_text, EmbedCall english_query]"
      by auto
    from respond_calls[OF resp] c3
    have "(calls st' = calls st @ [TranslateCall query_text, EmbedCall english_query]
           \<or> (\<exists>mode ctx. calls st' = calls st
                  @ [TranslateCall query_text, EmbedCall english_query,
                     AnswerCall mode ctx query_text]))
        \<and> (r = Inr () \<longrightarrow> (\<exists>mode ctx. calls st' = calls st
                  @ [TranslateCall query_text, EmbedCall english_query,
                     AnswerCall mode ctx query_text]))"
      by auto
    with q en show ?thesis by blast
  qed
qed

lemma demo_live_demo_state: "live_query demo_env demo_message demo_state"
  by (rule demo_live) (simp_all add: demo_state_def)

lemma respond_answered:
  assumes "results \<noteq> []" and "\<And>mode ctx. \<exists>answer. answer_chain e mode ctx q = Inr answer"
  shows "fst (respond e message q results s) = Inr ()"
proof -
  obtain ra s5 where a: "generate_answer e q results s = (ra, s5)"
    by (cases "generate_answer e q results s")
  with assms(2) obtain answer where "ra = Inr answer"
    by (auto simp: generate_answer_def Let_def)
  with a assms(1) show ?thesis by (simp add: respond_def)
qed

lemma demo_search_half:
  "map hit_id (search_query demo_env [1, 0] (1 / 2) demo_docs) = [2, 4, 1]"
  by (simp add: search_query_def demo_docs_def demo_doc_def similarity_to_def demo_env_def
        pgvector_cosine_distance_def dot_def to_row_def)

lemma demo_retrieve:
  "fst (retrieve demo_env ''paano mangisda sa pz'' (send Typing demo_state))
     = Inr (''paano mangisda sa Project Zomboid'', search_query demo_env [1, 0] (1 / 2) demo_docs)"
proof -
  have e: "embed_query demo_env ''how to fish'' = Inr [1, 0]"
    "translate_chain demo_env ''paano mangisda sa Project Zomboid'' = Inr ''how to fish''"
    "py_float demo_env ''0.5'' = Some (1 / 2)"
    "re_sub_word demo_env ''pz'' ''Project Zomboid'' ''paano mangisda sa pz''
       = Inr ''paano mangisda sa Project Zomboid''"
    by (simp_all add: demo_env_def)
  show ?thesis
    by (simp add: retrieve_def replace_aliases_def Database_fetch_def Database_run_def
          ConfigManager_get_def translate_to_english_def search_knowledge_base_def
          get_embedding_def send_def demo_state_def e)
qed

lemma demo_on_message_answered:
  "fst (on_message demo_env demo_message demo_state) = Inr ()"
proof -
  let ?ret = "retrieve demo_env ''paano mangisda sa pz'' (send Typing demo_state)"
  have ne: "search_query demo_env [1, 0] (1 / 2) demo_docs \<noteq> []"
    using demo_search_half by auto
  have ans: "\<exists>answer. answer_chain demo_env mode ctx ''paano mangisda sa Project Zomboid'' = Inr answer"
    for mode ctx by (simp add: demo_env_def)
  have ret: "?ret = (Inr (''paano mangisda sa Project Zomboid'',
                          search_query demo_env [1, 0] (1 / 2) demo_docs), snd ?ret)"
    using demo_retrieve by (simp add: prod_eq_iff)
  have "answer_query demo_env demo_message ''paano mangisda sa pz'' demo_state
          = respond demo_env demo_message ''paano mangisda sa Project Zomboid''
              (search_query demo_env [1, 0] (1 / 2) demo_docs) (snd ?ret)"
    unfolding answer_query_def by (subst ret) simp
  with respond_answered[OF ne ans] show ?thesis
    by (simp add: on_message_live[OF demo_live_demo_state] demo_clean)
qed

theorem question_is_alias_substituted_text_witness:
  "live_query demo_env demo_message demo_state
   \<and> fst (on_message demo_env demo_message demo_state) = Inr ()
   \<and> (\<exists>mode ctx. calls (snd (on_message demo_env demo_message demo_state))
         = [TranslateCall ''paano mangisda sa Project Zomboid'', EmbedCall ''how to fish'',
            AnswerCall mode ctx ''paano mangisda sa Project Zomboid''])"
proof -
  have al: "aliases (db demo_state) = [(''pz'', ''Project Zomboid'')]" "calls demo_state = []"
    by (simp_all add: demo_state_def)
  have tr: "translate_chain demo_env ''paano mangisda sa Project Zomboid'' = Inr ''how to fish''"
    by (simp add: demo_env_def)
  have demo_re_sub: "re_sub_word demo_env ''pz'' ''Project Zomboid'' ''paano mangisda sa pz''
       = Inr ''paano mangisda sa Project Zomboid''"
    by (simp add: demo_env_def)
  from question_is_alias_substituted_text[OF demo_live_demo_state surjective_pairing]
    demo_on_message_answered
  have "\<exists>query_text english_query mode ctx.
               sub_aliases demo_env (aliases (db demo_state)) (clean_content demo_env demo_message)
                 = Inr query_text
               \<and> translate_chain demo_env query_text = Inr english_query
               \<and> calls (snd (on_message demo_env demo_message demo_state)) = calls demo_state
                    @ [TranslateCall query_text, EmbedCall english_query,
                       AnswerCall mode ctx query_text]"
    by blast
  then have "\<exists>mode ctx. calls (snd (on_message demo_env demo_message demo_state))
         = [TranslateCall ''paano mangisda sa Project Zomboid'', EmbedCall ''how to fish'',
            AnswerCall mode ctx ''paano mangisda sa Project Zomboid'']"
    by (auto simp: al demo_clean demo_re_sub tr)
  with demo_live_demo_state demo_on_message_answered show ?thesis by simp
qed

text \<open>
  C7.  The claim asks that a failed translation call leave the requester with a visible
  response, or that the original text be passed on.  \<open>on_message\<close> has no handler
  around the call: with a translator that raises, the exception leaves the listener,
  and all the requester has seen is the typing indicator.  The \<open>alias\<close> command, in
  the same repository, catches a failed storage call and tells the user.
\<close>

theorem translation_failure_leaves_query_unanswered:
  "fst (on_message (demo_env\<lparr>translate_chain := (\<lambda>text. Inl LLMError)\<rparr>) demo_message demo_state)
        = Inl LLMError
   \<and> outbox (snd (on_message (demo_env\<lparr>translate_chain := (\<lambda>text. Inl LLMError)\<rparr>)
                     demo_message demo_state))
        = [Typing]
   \<and> fst (alias_command demo_env demo_librarian ''id'' ''identification''
            (demo_state\<lparr>db_faults := [True]\<rparr>))
        = Inr ()
   \<and> outbox (snd (alias_command demo_env demo_librarian ''id'' ''identification''
                     (demo_state\<lparr>db_faults := [True]\<rparr>)))
        = [Defer, AliasError DbError]"
proof -
  let ?e = "demo_env\<lparr>translate_chain := (\<lambda>text. Inl LLMError)\<rparr>"
  have cl: "clean_content ?e demo_message = ''paano mangisda sa pz''"
    using demo_clean by (simp add: clean_content_def)
  have live: "live_query ?e demo_message demo_state"
    using demo_live_demo_state by (simp add: live_query_def clean_content_def)
  have run: "on_message ?e demo_message demo_state
       = (Inl LLMError,
          demo_state\<lparr>outbox := [Typing],
                      calls := [TranslateCall ''paano mangisda sa Project Zomboid'']\<rparr>)"
    by (simp add: on_message_live[OF live] cl answer_query_def)
       (simp add: retrieve_def replace_aliases_def Database_fetch_def Database_run_def
          ConfigManager_get_def translate_to_english_def send_def demo_env_def demo_state_def)
  have al: "alias_command demo_env demo_librarian ''id'' ''identification''
            (demo_state\<lparr>db_faults := [True]\<rparr>)
       = (Inr (), demo_state\<lparr>db_faults := [], outbox := [Defer, AliasError DbError]\<rparr>)"
    by (simp add: alias_command_def is_configured_role_def ConfigManager_get_def truthy_str_def
          Let_def Database_execute_def Database_run_def send_def demo_env_def demo_state_def
          demo_librarian_def)
  show ?thesis by (simp add: run al)
qed

end
